theory Spec2Isabelle
  imports Complex_Main "HOL-Library.Multiset" "HOL-Library.Sublist" "HOL-Library.Char_ord"
    "HOL-Library.List_Lexorder"
begin

section \<open>The country list screen of \<open>app/(tabs)/index.tsx\<close>\<close>

text \<open>
  The screen keeps the fetched countries in component state, sorts them once when they
  arrive (\<open>load\<close>), derives the visible list from the search box on every render
  (\<open>filtered\<close>) and abbreviates the population of each card (\<open>formatPopulation\<close>).
  Layout, styles and the rendering of the cards are not modelled.
\<close>

subsection \<open>Data model\<close>

text \<open>
  The type \<open>Country\<close> of lines 13 to 20, field for field. It is the shape of the remote
  JSON itself: \<open>name\<close> is a nested object, \<open>capital\<close> is an optional array, the flag
  is \<open>flags.png\<close> and the key is \<open>cca3\<close>. A JavaScript string is modelled as a list
  of code units below 256 (\<open>string\<close>), \<open>population\<close> as a natural number.
\<close>

record CountryName =
  common :: string
  official :: string

record Flags =
  png :: string

record Country =
  name :: CountryName
  capital :: "string list option"
  population :: nat
  region :: string
  flags :: Flags
  cca3 :: string

subsection \<open>Strings: \<open>toLowerCase\<close> and \<open>includes\<close>\<close>

text \<open>
  \<open>String.prototype.toLowerCase\<close> on code units below 256: the letters A to Z and the
  Latin-1 capitals U+00C0 to U+00DE (without the multiplication sign U+00D7) move up by
  32, every other unit is its own lower case. On this range the Unicode mapping works
  unit by unit and keeps the length.
\<close>

definition toLowerCase_unit :: "char \<Rightarrow> char" where
  "toLowerCase_unit c =
     (let n = (of_char c :: nat)
      in if (65 \<le> n \<and> n \<le> 90) \<or> (192 \<le> n \<and> n \<le> 222 \<and> n \<noteq> 215)
         then char_of (n + 32) else c)"

definition toLowerCase :: "string \<Rightarrow> string" where
  "toLowerCase s = map toLowerCase_unit s"

text \<open>
  \<open>s.includes(q)\<close>: some position of \<open>s\<close> starts an occurrence of \<open>q\<close>. The search
  runs over the positions from the left, the end of the string included, so the empty
  string occurs in every string.
\<close>

fun occurs_here :: "string \<Rightarrow> string \<Rightarrow> bool" where
  "occurs_here [] s = True"
| "occurs_here (q # qs) [] = False"
| "occurs_here (q # qs) (c # cs) = (q = c \<and> occurs_here qs cs)"

fun str_includes :: "string \<Rightarrow> string \<Rightarrow> bool" where
  "str_includes [] q = occurs_here q []"
| "str_includes (c # cs) q = (occurs_here q (c # cs) \<or> str_includes cs q)"

subsection \<open>The derived list \<open>filtered\<close> (lines 52 to 56)\<close>

text \<open>
  \<open>query ? countries.filter(...) : countries\<close>. The empty string is the only falsy
  string, so the test is on emptiness; \<open>Array.prototype.filter\<close> keeps the elements
  that pass, in their order.
\<close>

definition filtered :: "string \<Rightarrow> Country list \<Rightarrow> Country list" where
  "filtered q cs =
     (if q \<noteq> []
      then filter (\<lambda>c. str_includes (toLowerCase (common (name c))) (toLowerCase q)) cs
      else cs)"

subsection \<open>What the specification calls a case-insensitive substring\<close>

text \<open>
  Written from the specification's words, to be compared with the code: two units are
  the same letter when they differ at most in case, and \<open>q\<close> is a case-insensitive
  substring of \<open>s\<close> when at some offset of \<open>s\<close> there are \<open>length q\<close> units, each the
  same letter as the unit of \<open>q\<close> at that place.
\<close>

definition same_letter :: "char \<Rightarrow> char \<Rightarrow> bool" where
  "same_letter a b = (toLowerCase_unit a = toLowerCase_unit b)"

definition ci_occurs_at :: "string \<Rightarrow> string \<Rightarrow> nat \<Rightarrow> bool" where
  "ci_occurs_at q s i =
     (i + length q \<le> length s \<and> list_all2 same_letter (take (length q) (drop i s)) q)"

definition ci_substring :: "string \<Rightarrow> string \<Rightarrow> bool" where
  "ci_substring q s = list_ex (ci_occurs_at q s) [0..<Suc (length s)]"

subsection \<open>Sorting with \<open>localeCompare\<close> (lines 36 to 38)\<close>

text \<open>
  \<open>Array.prototype.sort\<close> with a comparator: the element \<open>a\<close> goes before \<open>b\<close>
  when the comparator is negative, and elements that compare equal keep their order
  (the sort is stable). It is modelled as a stable insertion sort; for a comparator that
  is not a consistent ordering the language leaves the order to the engine, and the
  theorems about order assume consistency.
\<close>

fun insert_sorted :: "('a \<Rightarrow> 'a \<Rightarrow> int) \<Rightarrow> 'a \<Rightarrow> 'a list \<Rightarrow> 'a list" where
  "insert_sorted cmp x [] = [x]"
| "insert_sorted cmp x (y # ys) =
     (if cmp x y \<le> 0 then x # y # ys else y # insert_sorted cmp x ys)"

definition array_sort :: "('a \<Rightarrow> 'a \<Rightarrow> int) \<Rightarrow> 'a list \<Rightarrow> 'a list" where
  "array_sort cmp xs = foldr (insert_sorted cmp) xs []"

text \<open>
  The comparator of line 37, \<open>(a, b) => a.name.common.localeCompare(b.name.common)\<close>.
  \<open>localeCompare\<close> is the engine's collation for the device's locale; it is a
  parameter \<open>lc\<close> of the model, negative, zero or positive as the first string sorts
  before, with or after the second.
\<close>

definition by_common_name :: "(string \<Rightarrow> string \<Rightarrow> int) \<Rightarrow> Country \<Rightarrow> Country \<Rightarrow> int" where
  "by_common_name lc a b = lc (common (name a)) (common (name b))"

text \<open>
  What the language requires of \<open>localeCompare\<close>: a consistent comparison, that is a
  total preorder on strings.
\<close>

definition consistent :: "(string \<Rightarrow> string \<Rightarrow> int) \<Rightarrow> bool" where
  "consistent lc =
     ((\<forall>a b. lc a b \<le> 0 \<or> lc b a \<le> 0) \<and>
      (\<forall>a b c. lc a b \<le> 0 \<and> lc b c \<le> 0 \<longrightarrow> lc a c \<le> 0))"

text \<open>One consistent comparison to run examples with: the order of the code units.\<close>

definition codeunit_compare :: "string \<Rightarrow> string \<Rightarrow> int" where
  "codeunit_compare a b = (if a < b then - 1 else if b < a then 1 else 0)"

subsection \<open>Component state and \<open>load\<close> (lines 25 to 46)\<close>

text \<open>
  The four \<open>useState\<close> cells, and the console that \<open>console.error\<close> writes to.
  The collection holds elements of type \<open>'a\<close>: Country records in the typed view of
  this section, parsed values in the untyped one further down.
\<close>

datatype error = NetworkError | SyntaxError | TypeError

record 'a app_state =
  countries :: "'a list"
  loading :: bool
  refreshing :: bool
  query :: string
  console :: "error list"

definition initial_state :: "'a app_state" where
  "initial_state =
     \<lparr>countries = [], loading = True, refreshing = False, query = [], console = []\<rparr>"

text \<open>
  The typed view, in which the annotation \<open>Country[]\<close> of line 35 holds whenever
  the body is an array: \<open>fetch\<close> rejects, or it resolves with a body that
  \<open>res.json()\<close> cannot parse, or that parses to something that is not an array, or that
  parses to an array of Country records. A body that parses to an array of anything
  else is a case of the untyped \<open>load_untyped\<close> further down.
\<close>

datatype body = Unparseable | NotAnArray | Records "Country list"

datatype fetch_outcome = Rejected | Resolved body

text \<open>
  The \<open>try\<close> block: the awaited \<open>fetch\<close> and \<open>res.json()\<close> throw on a rejection,
  \<open>data.sort\<close> throws a \<open>TypeError\<close> when \<open>data\<close> has no such method, and only
  after the sort \<open>setCountries\<close> stores the array.
\<close>

definition try_block ::
  "(string \<Rightarrow> string \<Rightarrow> int) \<Rightarrow> fetch_outcome \<Rightarrow> Country app_state \<Rightarrow> (error + unit) \<times> Country app_state" where
  "try_block lc outcome s =
     (case outcome of
        Rejected \<Rightarrow> (Inl NetworkError, s)
      | Resolved Unparseable \<Rightarrow> (Inl SyntaxError, s)
      | Resolved NotAnArray \<Rightarrow> (Inl TypeError, s)
      | Resolved (Records data) \<Rightarrow>
          (Inr (), s\<lparr>countries := array_sort (by_common_name lc) data\<rparr>))"

text \<open>
  \<open>catch\<close> logs the error and completes normally; \<open>finally\<close> clears both flags on
  every path. The first component of the result is what the caller of \<open>load\<close> sees:
  \<open>Inl e\<close> would be an error that escapes.
\<close>

definition catch_block :: "error \<Rightarrow> 'a app_state \<Rightarrow> (error + unit) \<times> 'a app_state" where
  "catch_block e s = (Inr (), s\<lparr>console := console s @ [e]\<rparr>)"

definition finally_block :: "'a app_state \<Rightarrow> 'a app_state" where
  "finally_block s = s\<lparr>loading := False, refreshing := False\<rparr>"

definition load ::
  "(string \<Rightarrow> string \<Rightarrow> int) \<Rightarrow> fetch_outcome \<Rightarrow> Country app_state \<Rightarrow> (error + unit) \<times> Country app_state" where
  "load lc outcome s =
     (let (r, s1) = try_block lc outcome s;
          (r', s2) = (case r of Inl e \<Rightarrow> catch_block e s1 | Inr u \<Rightarrow> (Inr u, s1))
      in (r', finally_block s2))"

text \<open>
  The order the specification asks of the result, from its words: every adjacent pair
  \<open>(a, b)\<close> has \<open>a\<close>'s common name compare less than or equal to \<open>b\<close>'s.
\<close>

fun adjacent_sorted :: "(string \<Rightarrow> string \<Rightarrow> int) \<Rightarrow> Country list \<Rightarrow> bool" where
  "adjacent_sorted lc (a # b # cs) =
     (lc (common (name a)) (common (name b)) \<le> 0 \<and> adjacent_sorted lc (b # cs))"
| "adjacent_sorted lc cs = True"

text \<open>The two records of the specification's end-to-end example.\<close>

definition zedland :: Country where
  "zedland =
     \<lparr>name = \<lparr>common = ''Zedland'', official = ''Kingdom of Zedland''\<rparr>,
      capital = Some [''Zed City''], population = 1500000, region = ''Europe'',
      flags = \<lparr>png = ''https://flagcdn.com/w320/zd.png''\<rparr>, cca3 = ''ZED''\<rparr>"

definition aland :: Country where
  "aland =
     \<lparr>name = \<lparr>common = ''Aland'', official = ''Aland Islands''\<rparr>,
      capital = None, population = 999, region = ''Europe'',
      flags = \<lparr>png = ''https://flagcdn.com/w320/ax.png''\<rparr>, cca3 = ''ALA''\<rparr>"

subsection \<open>Records as the objects they are at run time\<close>

text \<open>
  Type annotations are erased: a stored record is the object that \<open>res.json()\<close> built.
  \<open>to_json\<close> gives that object for a value of type \<open>Country\<close>; an absent \<open>capital\<close>
  is an absent property.
\<close>

datatype json =
  JNull | JBool bool | JNum nat | JStr string | JArr "json list" | JObj "(string \<times> json) list"

definition to_json :: "Country \<Rightarrow> json" where
  "to_json c =
     JObj ([(''name'', JObj [(''common'', JStr (common (name c))),
                            (''official'', JStr (official (name c)))])] @
           (case capital c of None \<Rightarrow> [] | Some cs \<Rightarrow> [(''capital'', JArr (map JStr cs))]) @
           [(''population'', JNum (population c)),
            (''region'', JStr (region c)),
            (''flags'', JObj [(''png'', JStr (png (flags c)))]),
            (''cca3'', JStr (cca3 c))])"

fun property :: "json \<Rightarrow> string \<Rightarrow> json option" where
  "property (JObj kvs) k = map_of kvs k"
| "property j k = None"

fun is_str :: "json option \<Rightarrow> bool" where
  "is_str (Some (JStr s)) = True"
| "is_str j = False"

fun is_num :: "json option \<Rightarrow> bool" where
  "is_num (Some (JNum n)) = True"
| "is_num j = False"

fun is_str_array :: "json option \<Rightarrow> bool" where
  "is_str_array (Some (JArr js)) = list_all (\<lambda>j. is_str (Some j)) js"
| "is_str_array j = False"

text \<open>
  The raw shape, as section 6 of the specification and the type of lines 13 to 20 have
  it: \<open>name.common\<close>, \<open>capital\<close> an array or absent, \<open>flags.png\<close>, \<open>cca3\<close>.
\<close>

definition is_raw_Country :: "json \<Rightarrow> bool" where
  "is_raw_Country j =
     ((case property j ''name'' of Some n \<Rightarrow> is_str (property n ''common'') | None \<Rightarrow> False) \<and>
      (property j ''capital'' = None \<or> is_str_array (property j ''capital'')) \<and>
      is_num (property j ''population'') \<and>
      is_str (property j ''region'') \<and>
      (case property j ''flags'' of Some f \<Rightarrow> is_str (property f ''png'') | None \<Rightarrow> False) \<and>
      is_str (property j ''cca3''))"

text \<open>
  The Country shape of section 3 of the specification, written from its words: six
  fields, \<open>capitalNames\<close> always a sequence (possibly empty).
\<close>

definition is_spec_Country :: "json \<Rightarrow> bool" where
  "is_spec_Country j =
     (is_str (property j ''commonName'') \<and>
      is_str_array (property j ''capitalNames'') \<and>
      is_num (property j ''population'') \<and>
      is_str (property j ''region'') \<and>
      is_str (property j ''flagImageUrl'') \<and>
      is_str (property j ''countryCode''))"

subsection \<open>\<open>filtered\<close> over arrays in a store\<close>

text \<open>
  Arrays are objects: \<open>countries.filter(...)\<close> allocates a new array and leaves its
  receiver alone, while the other branch of line 52 hands back \<open>countries\<close> itself. The
  store is the list of all arrays, an address is an index into it, and a new array gets
  the next free index. A reference that the program holds is the address of an array
  of the store, so \<open>r < length h\<close> for every address \<open>r\<close> that is read.
\<close>

type_synonym store = "Country list list"

definition array_filter :: "(Country \<Rightarrow> bool) \<Rightarrow> nat \<Rightarrow> store \<Rightarrow> nat \<times> store" where
  "array_filter p r h = (length h, h @ [filter p (h ! r)])"

definition filtered_in :: "string \<Rightarrow> nat \<Rightarrow> store \<Rightarrow> nat \<times> store" where
  "filtered_in q r h =
     (if q \<noteq> []
      then array_filter
             (\<lambda>c. str_includes (toLowerCase (common (name c))) (toLowerCase q)) r h
      else (r, h))"

subsection \<open>\<open>formatPopulation\<close> (lines 58 to 65)\<close>

text \<open>
  \<open>Number.prototype.toString\<close> of a non-negative integer: its decimal digits.
\<close>

definition digit :: "nat \<Rightarrow> char" where
  "digit d = ''0123456789'' ! d"

fun number_toString :: "nat \<Rightarrow> string" where
  "number_toString n =
     (if n < 10 then [digit n] else number_toString (n div 10) @ [digit (n mod 10)])"

declare number_toString.simps [simp del]

text \<open>
  Numbers are binary64, modelled by the real numbers they stand for. A population is an
  integer below \<open>2 ^ 53\<close>, which a number holds exactly. \<open>pop / d\<close> is the exact
  quotient rounded to 53 significant bits, to nearest and on a tie to the even
  significand. For \<open>d \<le> pop\<close>, the only case the code divides in, the quotient lies
  in \<open>[2 ^ e, 2 ^ (e + 1))\<close> for \<open>e\<close> one less than the bit length of its integer
  part, so the result is a multiple of \<open>2 ^ e / 2 ^ 52\<close>. The model is that of the
  division for \<open>0 < d \<le> pop < 2 ^ 53\<close>, and the theorems stay within this range.
\<close>

fun bit_length :: "nat \<Rightarrow> nat" where
  "bit_length n = (if n = 0 then 0 else Suc (bit_length (n div 2)))"

declare bit_length.simps [simp del]

definition round_half_even :: "nat \<Rightarrow> nat \<Rightarrow> nat" where
  "round_half_even a b =
     (let q = a div b; r = a mod b
      in if 2 * r < b then q
         else if b < 2 * r then q + 1
         else if even q then q else q + 1)"

definition number_div :: "nat \<Rightarrow> nat \<Rightarrow> real" where
  "number_div a b =
     (let e = bit_length (a div b) - 1; k = 52 - e
      in of_nat (round_half_even (a * 2 ^ k) b) / 2 ^ k)"

text \<open>
  \<open>x.toFixed(f)\<close> for \<open>0 \<le> x < 10 ^ 21\<close>: the integer \<open>n\<close> for which \<open>n / 10 ^ f\<close>
  is nearest to the exact value of \<open>x\<close>, the larger one when two are equally near; then
  the digits of \<open>n\<close>, with a point before the last \<open>f\<close> of them.
\<close>

definition toFixed :: "nat \<Rightarrow> real \<Rightarrow> string" where
  "toFixed f x =
     (let n = nat \<lfloor>x * 10 ^ f + 1 / 2\<rfloor>
      in if f = 0 then number_toString n
         else let frac = number_toString (n mod 10 ^ f)
              in number_toString (n div 10 ^ f) @ ''.'' @
                 replicate (f - length frac) (CHR ''0'') @ frac)"

definition formatPopulation :: "nat \<Rightarrow> string" where
  "formatPopulation pop =
     (if pop \<ge> 1000000 then toFixed 1 (number_div pop 1000000) @ ''M''
      else if pop \<ge> 1000 then toFixed 0 (number_div pop 1000) @ ''K''
      else number_toString pop)"

text \<open>
  The rule of section 4.1 of the specification, written from its words with exact
  arithmetic and the usual reading of "rounded" (to nearest, a tie upward): tenths of a
  million, thousands, or the plain number.
\<close>

definition spec_formatPopulation :: "nat \<Rightarrow> string" where
  "spec_formatPopulation n =
     (if n \<ge> 1000000
      then let t = (n + 50000) div 100000
           in number_toString (t div 10) @ ''.'' @ number_toString (t mod 10) @ ''M''
      else if n \<ge> 1000 then number_toString ((n + 500) div 1000) @ ''K''
      else number_toString n)"

subsection \<open>\<open>load\<close> on whatever the response parses to\<close>

text \<open>
  \<open>res.json()\<close> is untyped and \<open>Country[]\<close> is an annotation that nothing checks:
  \<open>data\<close> is whatever value the body parses to, and the lines 36 to 39 run on it as
  it is. This is \<open>load\<close> on every response; on the responses whose body is an array of
  Country records it is the \<open>load\<close> above (lemma \<open>load_untyped_refines\<close>). A parsed
  object is the list of its keys and values, each key once; numbers are the
  non-negative integers below \<open>2 ^ 53\<close>.
\<close>

datatype response = NoResponse | NotJSON | Parsed json

fun is_array :: "json \<Rightarrow> bool" where
  "is_array (JArr xs) = True"
| "is_array j = False"

text \<open>
  \<open>x.name.common\<close>. Reading a property of \<open>null\<close> or of \<open>undefined\<close> throws a
  \<open>TypeError\<close>; any other value that has no such key gives \<open>undefined\<close>, here
  \<open>None\<close> (no prototype has a \<open>name\<close> or a \<open>common\<close>).
\<close>

definition name_common :: "json \<Rightarrow> error + json option" where
  "name_common x =
     (case x of
        JNull \<Rightarrow> Inl TypeError
      | _ \<Rightarrow> (case property x ''name'' of
                None \<Rightarrow> Inl TypeError
              | Some JNull \<Rightarrow> Inl TypeError
              | Some n \<Rightarrow> Inr (property n ''common'')))"

text \<open>
  \<open>ToString\<close> of the argument of \<open>localeCompare\<close>: \<open>undefined\<close> and the primitive
  values print as they are written, an array joins its elements with commas (\<open>null\<close>
  as the empty string), an object is \<open>[object Object]\<close>, unless it has a key
  \<open>toString\<close> of its own, which is not a function, and the conversion throws.
\<close>

fun to_String :: "json \<Rightarrow> error + string"
  and join :: "json list \<Rightarrow> error + string" where
  "to_String JNull = Inr ''null''"
| "to_String (JBool b) = Inr (if b then ''true'' else ''false'')"
| "to_String (JNum n) = Inr (number_toString n)"
| "to_String (JStr s) = Inr s"
| "to_String (JArr xs) = join xs"
| "to_String (JObj kvs) =
     (if ''toString'' \<in> set (map fst kvs) then Inl TypeError else Inr ''[object Object]'')"
| "join [] = Inr ''''"
| "join (x # xs) =
     (case (case x of JNull \<Rightarrow> Inr '''' | _ \<Rightarrow> to_String x) of
        Inl e \<Rightarrow> Inl e
      | Inr s \<Rightarrow>
          (if xs = [] then Inr s
           else case join xs of Inl e \<Rightarrow> Inl e | Inr t \<Rightarrow> Inr (s @ '','' @ t)))"

text \<open>
  The comparator of line 37 on two parsed values. \<open>a.name.common\<close> must be a string to
  have the method \<open>localeCompare\<close>; \<open>b.name.common\<close> may be any value, \<open>undefined\<close>
  included, and is converted to a string. Every error is a \<open>TypeError\<close>, so the order
  in which the two sides are evaluated does not show.
\<close>

definition compare_name :: "(string \<Rightarrow> string \<Rightarrow> int) \<Rightarrow> json \<Rightarrow> json \<Rightarrow> error + int" where
  "compare_name lc a b =
     (case name_common a of
        Inl e \<Rightarrow> Inl e
      | Inr (Some (JStr s)) \<Rightarrow>
          (case name_common b of
             Inl e \<Rightarrow> Inl e
           | Inr None \<Rightarrow> Inr (lc s ''undefined'')
           | Inr (Some v) \<Rightarrow> (case to_String v of Inl e \<Rightarrow> Inl e | Inr t \<Rightarrow> Inr (lc s t)))
      | Inr _ \<Rightarrow> Inl TypeError)"

text \<open>
  The sort with a comparator that may throw: the first error ends the sort. An array
  of fewer than two elements is sorted without a call of the comparator. Which pairs
  of a longer array are compared is the engine's choice; the model compares as the
  insertion sort above does.
\<close>

fun insert_checked ::
  "('a \<Rightarrow> 'a \<Rightarrow> error + int) \<Rightarrow> 'a \<Rightarrow> 'a list \<Rightarrow> error + 'a list" where
  "insert_checked cmp x [] = Inr [x]"
| "insert_checked cmp x (y # ys) =
     (case cmp x y of
        Inl e \<Rightarrow> Inl e
      | Inr v \<Rightarrow>
          (if v \<le> 0 then Inr (x # y # ys)
           else case insert_checked cmp x ys of Inl e \<Rightarrow> Inl e | Inr zs \<Rightarrow> Inr (y # zs)))"

fun sort_checked :: "('a \<Rightarrow> 'a \<Rightarrow> error + int) \<Rightarrow> 'a list \<Rightarrow> error + 'a list" where
  "sort_checked cmp [] = Inr []"
| "sort_checked cmp (x # xs) =
     (case sort_checked cmp xs of Inl e \<Rightarrow> Inl e | Inr ys \<Rightarrow> insert_checked cmp x ys)"

text \<open>
  Lines 32 to 38: the awaited \<open>fetch\<close> and \<open>res.json()\<close> throw on a rejection,
  \<open>data.sort\<close> is not a function unless \<open>data\<close> is an array, and the sort throws
  when the comparator does. Line 39 stores the sorted array; nothing checks its
  elements.
\<close>

definition fetch_and_sort :: "(string \<Rightarrow> string \<Rightarrow> int) \<Rightarrow> response \<Rightarrow> error + json list" where
  "fetch_and_sort lc r =
     (case r of
        NoResponse \<Rightarrow> Inl NetworkError
      | NotJSON \<Rightarrow> Inl SyntaxError
      | Parsed (JArr xs) \<Rightarrow> sort_checked (compare_name lc) xs
      | Parsed _ \<Rightarrow> Inl TypeError)"

definition try_block_untyped ::
  "(string \<Rightarrow> string \<Rightarrow> int) \<Rightarrow> response \<Rightarrow> json app_state \<Rightarrow> (error + unit) \<times> json app_state" where
  "try_block_untyped lc r s =
     (case fetch_and_sort lc r of
        Inl e \<Rightarrow> (Inl e, s)
      | Inr arr \<Rightarrow> (Inr (), s\<lparr>countries := arr\<rparr>))"

definition load_untyped ::
  "(string \<Rightarrow> string \<Rightarrow> int) \<Rightarrow> response \<Rightarrow> json app_state \<Rightarrow> (error + unit) \<times> json app_state" where
  "load_untyped lc r s =
     (let (res, s1) = try_block_untyped lc r s;
          (res', s2) = (case res of Inl e \<Rightarrow> catch_block e s1 | Inr u \<Rightarrow> (Inr u, s1))
      in (res', finally_block s2))"

text \<open>
  How a response appears in the typed view of \<open>load\<close>, and a typed state as the state
  that holds the same records as objects.
\<close>

fun seen_as :: "response \<Rightarrow> fetch_outcome \<Rightarrow> bool" where
  "seen_as NoResponse outcome = (outcome = Rejected)"
| "seen_as NotJSON outcome = (outcome = Resolved Unparseable)"
| "seen_as (Parsed j) (Resolved (Records data)) = (j = JArr (map to_json data))"
| "seen_as (Parsed j) (Resolved NotAnArray) = (\<not> is_array j)"
| "seen_as (Parsed j) outcome = False"

definition objects :: "Country app_state \<Rightarrow> json app_state" where
  "objects s =
     \<lparr>countries = map to_json (countries s), loading = loading s,
      refreshing = refreshing s, query = query s, console = console s\<rparr>"

text \<open>
  The failed fetch of sections 4.1 and 7 of the specification, from its words: the
  network call fails, or the response cannot be parsed into the expected shape, an
  array of records of the raw shape.
\<close>

fun expected_shape :: "json \<Rightarrow> bool" where
  "expected_shape (JArr xs) = list_all is_raw_Country xs"
| "expected_shape j = False"

fun fetch_error :: "response \<Rightarrow> bool" where
  "fetch_error NoResponse = True"
| "fetch_error NotJSON = True"
| "fetch_error (Parsed j) = (\<not> expected_shape j)"

section \<open>Properties\<close>

subsection \<open>Searching\<close>

lemma occurs_here_iff:
  "occurs_here q s = (length q \<le> length s \<and> take (length q) s = q)"
  by (induction q s rule: occurs_here.induct) auto

lemma str_includes_iff:
  "str_includes s q = (\<exists>i\<le>length s. occurs_here q (drop i s))"
proof (induction s)
  case Nil
  then show ?case by simp
next
  case (Cons c cs)
  have "(\<exists>i\<le>length (c # cs). occurs_here q (drop i (c # cs))) =
        (occurs_here q (c # cs) \<or> (\<exists>i\<le>length cs. occurs_here q (drop i cs)))"
  proof
    assume "\<exists>i\<le>length (c # cs). occurs_here q (drop i (c # cs))"
    then obtain i where i: "i \<le> length (c # cs)" "occurs_here q (drop i (c # cs))"
      by blast
    show "occurs_here q (c # cs) \<or> (\<exists>i\<le>length cs. occurs_here q (drop i cs))"
    proof (cases i)
      case 0
      with i show ?thesis by simp
    next
      case (Suc j)
      with i have "j \<le> length cs" "occurs_here q (drop j cs)" by simp_all
      then show ?thesis by blast
    qed
  next
    assume "occurs_here q (c # cs) \<or> (\<exists>i\<le>length cs. occurs_here q (drop i cs))"
    then show "\<exists>i\<le>length (c # cs). occurs_here q (drop i (c # cs))"
    proof
      assume "occurs_here q (c # cs)"
      then have "occurs_here q (drop 0 (c # cs))" by simp
      then show ?thesis by blast
    next
      assume "\<exists>i\<le>length cs. occurs_here q (drop i cs)"
      then obtain j where "j \<le> length cs" "occurs_here q (drop j cs)" by blast
      then have "Suc j \<le> length (c # cs)" "occurs_here q (drop (Suc j) (c # cs))"
        by simp_all
      then show ?thesis by blast
    qed
  qed
  with Cons show ?case by simp
qed

lemma lowered_occurrence:
  "occurs_here (toLowerCase q) (toLowerCase t) =
     (length q \<le> length t \<and> list_all2 same_letter (take (length q) t) q)"
proof -
  have "(take (length q) (map toLowerCase_unit t) = map toLowerCase_unit q) =
        list_all2 same_letter (take (length q) t) q" if "length q \<le> length t"
  proof -
    from that have len: "length (take (length q) t) = length q" by simp
    show ?thesis
      unfolding take_map list_all2_conv_all_nth same_letter_def
      using len by (auto simp: list_eq_iff_nth_eq)
  qed
  then show ?thesis
    by (auto simp: occurs_here_iff toLowerCase_def)
qed

lemma includes_lowered_iff:
  "str_includes (toLowerCase s) (toLowerCase q) = ci_substring q s"
proof -
  have "str_includes (toLowerCase s) (toLowerCase q) =
        (\<exists>i\<le>length s. occurs_here (toLowerCase q) (toLowerCase (drop i s)))"
    by (simp add: str_includes_iff toLowerCase_def drop_map)
  also have "\<dots> = (\<exists>i\<le>length s. ci_occurs_at q s i)"
    unfolding lowered_occurrence ci_occurs_at_def by auto
  also have "\<dots> = ci_substring q s"
    unfolding ci_substring_def list_ex_iff set_upt
    by (meson atLeastLessThan_iff less_Suc_eq_le zero_le)
  finally show ?thesis .
qed

text \<open>
  C1. For a non-empty query every element of \<open>filtered q cs\<close> is an element of \<open>cs\<close>
  and its \<open>name.common\<close> contains the query as a case-insensitive substring; an entry of
  \<open>cs\<close> whose name does not contain it is not in the result.
\<close>

theorem filtered_sound:
  "q \<noteq> [] \<Longrightarrow>
     set (filtered q cs) \<subseteq> set cs \<and>
     (\<forall>c \<in> set (filtered q cs). ci_substring q (common (name c))) \<and>
     (\<forall>c \<in> set cs. \<not> ci_substring q (common (name c)) \<longrightarrow> c \<notin> set (filtered q cs))"
  by (auto simp: filtered_def includes_lowered_iff)

lemmas string_eval = toLowerCase_def toLowerCase_unit_def char_of_def bit_Suc_0_iff

lemmas example_records = zedland_def aland_def

theorem filtered_sound_witness:
  "''AL'' \<noteq> [] \<and>
   set (filtered ''AL'' [zedland, aland]) \<subseteq> set [zedland, aland] \<and>
   filtered ''AL'' [zedland, aland] = [aland] \<and>
   ci_substring ''AL'' (common (name aland)) \<and>
   \<not> ci_substring ''AL'' (common (name zedland))"
  using filtered_sound [of "''AL''" "[zedland, aland]"]
  by (simp add: filtered_def ci_substring_def ci_occurs_at_def same_letter_def
      string_eval example_records)

text \<open>
  C2. With the empty query \<open>filtered\<close> is the collection itself: the same elements in
  the same order.
\<close>

theorem filtered_empty_query: "filtered '''' cs = cs"
  by (simp add: filtered_def)

lemma ci_substring_empty: "ci_substring [] s"
  unfolding ci_substring_def list_ex_iff ci_occurs_at_def
  by (rule bexI [of _ 0]) simp_all

text \<open>
  C9. For every query, \<open>filtered q cs\<close> is the subsequence of \<open>cs\<close> made of the
  entries that match, in the order they have in \<open>cs\<close>.
\<close>

theorem filtered_subsequence:
  "filtered q cs = filter (\<lambda>c. ci_substring q (common (name c))) cs \<and>
   subseq (filtered q cs) cs"
proof
  show "filtered q cs = filter (\<lambda>c. ci_substring q (common (name c))) cs"
  proof (cases "q = []")
    case True
    then show ?thesis by (simp add: filtered_def ci_substring_empty)
  next
    case False
    then show ?thesis by (simp add: filtered_def includes_lowered_iff)
  qed
  then show "subseq (filtered q cs) cs" by simp
qed

subsection \<open>Sorting\<close>

lemma mset_insert_sorted: "mset (insert_sorted cmp x ys) = add_mset x (mset ys)"
  by (induction ys) auto

lemma mset_array_sort: "mset (array_sort cmp xs) = mset xs"
  unfolding array_sort_def by (induction xs) (auto simp: mset_insert_sorted)

lemma set_insert_sorted: "set (insert_sorted cmp x ys) = insert x (set ys)"
  by (induction ys) auto

lemma sorted_insert_sorted:
  assumes total: "\<And>a b. cmp a b \<le> 0 \<or> cmp b a \<le> 0"
    and trans: "\<And>a b c. cmp a b \<le> 0 \<Longrightarrow> cmp b c \<le> 0 \<Longrightarrow> cmp a c \<le> 0"
    and sorted: "sorted_wrt (\<lambda>a b. cmp a b \<le> 0) ys"
  shows "sorted_wrt (\<lambda>a b. cmp a b \<le> 0) (insert_sorted cmp x ys)"
  using sorted
proof (induction ys)
  case Nil
  then show ?case by simp
next
  case (Cons y ys)
  show ?case
  proof (cases "cmp x y \<le> 0")
    case True
    with Cons.prems trans show ?thesis by auto
  next
    case False
    with total have "cmp y x \<le> 0" by blast
    with False Cons show ?thesis by (auto simp: set_insert_sorted)
  qed
qed

lemma sorted_array_sort:
  assumes "\<And>a b. cmp a b \<le> 0 \<or> cmp b a \<le> 0"
    and "\<And>a b c. cmp a b \<le> 0 \<Longrightarrow> cmp b c \<le> 0 \<Longrightarrow> cmp a c \<le> 0"
  shows "sorted_wrt (\<lambda>a b. cmp a b \<le> 0) (array_sort cmp xs)"
  unfolding array_sort_def
proof (induction xs)
  case Nil
  show ?case by simp
next
  case (Cons x xs)
  from sorted_insert_sorted [of cmp, OF assms Cons] show ?case by simp
qed

lemma adjacent_sorted_if_sorted_wrt:
  "sorted_wrt (\<lambda>a b. by_common_name lc a b \<le> 0) cs \<Longrightarrow> adjacent_sorted lc cs"
  by (induction lc cs rule: adjacent_sorted.induct) (auto simp: by_common_name_def)

lemma consistent_codeunit_compare: "consistent codeunit_compare"
  unfolding consistent_def codeunit_compare_def by auto

lemma countries_load_Records:
  "countries (snd (load lc (Resolved (Records data)) s)) = array_sort (by_common_name lc) data"
  by (simp add: load_def try_block_def finally_block_def)

lemmas load_eval = load_def try_block_def catch_block_def finally_block_def array_sort_def
  by_common_name_def codeunit_compare_def initial_state_def

text \<open>
  C3. After a successful fetch the stored collection is in ascending order of
  \<open>name.common\<close> under the locale's comparison: every adjacent pair compares less than
  or equal. A response with Zedland before Aland is stored as Aland, Zedland when the
  locale puts Aland first.
\<close>

theorem load_sorted:
  assumes "consistent lc"
  shows "adjacent_sorted lc (countries (snd (load lc (Resolved (Records data)) s))) \<and>
         (0 < lc ''Zedland'' ''Aland'' \<longrightarrow>
            countries (snd (load lc (Resolved (Records [zedland, aland])) s)) =
              [aland, zedland])"
proof
  from assms have total: "\<And>a b. by_common_name lc a b \<le> 0 \<or> by_common_name lc b a \<le> 0"
    unfolding consistent_def by_common_name_def by blast
  from assms have trans: "\<And>a b c. by_common_name lc a b \<le> 0 \<Longrightarrow>
      by_common_name lc b c \<le> 0 \<Longrightarrow> by_common_name lc a c \<le> 0"
    unfolding consistent_def by_common_name_def by blast
  have "sorted_wrt (\<lambda>a b. by_common_name lc a b \<le> 0) (array_sort (by_common_name lc) data)"
    using total trans by (rule sorted_array_sort)
  then show "adjacent_sorted lc (countries (snd (load lc (Resolved (Records data)) s)))"
    unfolding countries_load_Records by (rule adjacent_sorted_if_sorted_wrt)
next
  show "0 < lc ''Zedland'' ''Aland'' \<longrightarrow>
          countries (snd (load lc (Resolved (Records [zedland, aland])) s)) = [aland, zedland]"
    by (simp add: countries_load_Records array_sort_def by_common_name_def example_records)
qed

theorem load_sorted_witness:
  "consistent codeunit_compare \<and>
   0 < codeunit_compare ''Zedland'' ''Aland'' \<and>
   adjacent_sorted codeunit_compare
     (countries (snd (load codeunit_compare (Resolved (Records [zedland, aland])) initial_state))) \<and>
   countries (snd (load codeunit_compare (Resolved (Records [zedland, aland])) initial_state)) =
     [aland, zedland]"
proof -
  have c: "consistent codeunit_compare" by (rule consistent_codeunit_compare)
  have z: "0 < codeunit_compare ''Zedland'' ''Aland''"
    by (simp add: codeunit_compare_def)
  from load_sorted [OF c, of "[zedland, aland]" initial_state] c z show ?thesis by blast
qed

text \<open>
  C6. After a successful fetch the stored collection is a permutation of the records
  of the response: none is dropped, repeated or made up, and no error reaches the caller.
\<close>

theorem load_permutation:
  "mset (countries (snd (load lc (Resolved (Records data)) s))) = mset data \<and>
   fst (load lc (Resolved (Records data)) s) = Inr ()"
  by (simp add: countries_load_Records mset_array_sort)
    (simp add: load_def try_block_def)

subsection \<open>The shape of the stored records\<close>

lemma set_array_sort: "set (array_sort cmp xs) = set xs"
  using mset_array_sort [of cmp xs] by (metis set_mset_mset)

lemma to_json_is_raw: "is_raw_Country (to_json c)"
proof (cases "capital c")
  case None
  then show ?thesis by (simp add: is_raw_Country_def to_json_def)
next
  case (Some cs)
  have "list_all (\<lambda>j. is_str (Some j)) (map JStr cs)"
    by (induction cs) simp_all
  with Some show ?thesis by (simp add: is_raw_Country_def to_json_def)
qed

lemma to_json_not_spec: "\<not> is_spec_Country (to_json c)"
  by (cases "capital c") (simp_all add: is_spec_Country_def to_json_def)

lemma load_example:
  "countries (snd (load codeunit_compare (Resolved (Records [zedland, aland])) initial_state)) =
     [aland, zedland]"
  by (simp add: load_eval example_records)

text \<open>
  C5, as the specification states it, fails: the stored records do not have the fields
  \<open>commonName\<close>, \<open>capitalNames\<close>, \<open>flagImageUrl\<close> and \<open>countryCode\<close>. The response
  of the end-to-end example is stored with \<open>name.common\<close>, and Aland, which has no
  capital, with no \<open>capital\<close> property rather than an empty sequence.
\<close>

theorem load_normalizes_counterexample:
  "\<not> (\<forall>c \<in> set (countries (snd (load codeunit_compare (Resolved (Records [zedland, aland]))
                                   initial_state))).
        is_spec_Country (to_json c))"
  unfolding load_example using to_json_not_spec [of aland] by simp

text \<open>
  C5, amended. After a successful fetch every stored record is one of the records of the
  response, kept as it was received in the raw shape (\<open>name.common\<close>, \<open>capital\<close> an
  array or absent, \<open>population\<close>, \<open>region\<close>, \<open>flags.png\<close>, \<open>cca3\<close>); none is
  converted to the field names of the specification's Country.
\<close>

theorem load_keeps_raw_records:
  "\<forall>c \<in> set (countries (snd (load lc (Resolved (Records data)) s))).
     c \<in> set data \<and> is_raw_Country (to_json c) \<and> \<not> is_spec_Country (to_json c)"
  by (simp add: countries_load_Records set_array_sort to_json_is_raw to_json_not_spec)

theorem load_keeps_raw_records_witness:
  "aland \<in> set (countries (snd (load codeunit_compare (Resolved (Records [zedland, aland]))
                               initial_state))) \<and>
   aland \<in> set [zedland, aland] \<and>
   is_raw_Country (to_json aland) \<and>
   \<not> is_spec_Country (to_json aland) \<and>
   property (to_json aland) ''capital'' = None \<and>
   property (to_json aland) ''commonName'' = None"
proof -
  have mem: "aland \<in> set (countries (snd (load codeunit_compare
      (Resolved (Records [zedland, aland])) initial_state)))"
    unfolding load_example by simp
  have props: "property (to_json aland) ''capital'' = None \<and>
      property (to_json aland) ''commonName'' = None"
    by (simp add: to_json_def aland_def)
  from load_keeps_raw_records [of codeunit_compare "[zedland, aland]" initial_state] mem props
  show ?thesis by blast
qed

subsection \<open>Purity of \<open>filtered\<close>\<close>

text \<open>
  C8. \<open>filtered\<close> does not change the collection it reads: after the call the store
  holds every array it held, unchanged, the collection at \<open>r\<close> among them; the array it
  returns holds \<open>filtered q\<close> of the collection; and a second call with the same
  collection and query returns an array with the same contents.
\<close>

theorem filtered_in_pure:
  "r < length h \<Longrightarrow>
     (let (r1, h1) = filtered_in q r h; (r2, h2) = filtered_in q r h1
      in h1 ! r = h ! r \<and> take (length h) h1 = h \<and>
         h2 ! r = h ! r \<and> take (length h1) h2 = h1 \<and>
         h1 ! r1 = filtered q (h ! r) \<and> h2 ! r2 = h1 ! r1)"
  by (simp add: filtered_in_def array_filter_def filtered_def nth_append)

theorem filtered_in_pure_witness:
  "0 < length [[zedland, aland]] \<and>
   filtered_in ''AL'' 0 [[zedland, aland]] = (1, [[zedland, aland], [aland]]) \<and>
   filtered_in ''AL'' 0 [[zedland, aland], [aland]] =
     (2, [[zedland, aland], [aland], [aland]]) \<and>
   filtered_in '''' 0 [[zedland, aland]] = (0, [[zedland, aland]])"
  using filtered_in_pure [of 0 "[[zedland, aland]]" "''AL''"]
  by (simp add: filtered_in_def array_filter_def string_eval example_records)

subsection \<open>Populations\<close>

lemma bit_length_bounds:
  "0 < n \<Longrightarrow> 2 ^ (bit_length n - 1) \<le> n \<and> n < 2 ^ bit_length n"
proof (induction n rule: bit_length.induct)
  case (1 n)
  show ?case
  proof (cases "n div 2 = 0")
    case True
    with "1.prems" have "n = 1" by presburger
    then show ?thesis by (simp add: bit_length.simps)
  next
    case False
    then have pos: "0 < n div 2" by simp
    from "1.prems" have n0: "n \<noteq> 0" by simp
    from "1.IH" [OF n0 pos]
    have ih: "2 ^ (bit_length (n div 2) - 1) \<le> n div 2" "n div 2 < 2 ^ bit_length (n div 2)"
      by simp_all
    have bl: "bit_length n = Suc (bit_length (n div 2))"
      using n0 by (subst bit_length.simps) simp
    from pos have "bit_length (n div 2) \<noteq> 0"
      by (subst bit_length.simps) simp
    then have e: "bit_length n - 1 = Suc (bit_length (n div 2) - 1)"
      using bl by simp
    have "2 * 2 ^ (bit_length (n div 2) - 1) \<le> 2 * (n div 2)" using ih(1) by simp
    also have "\<dots> \<le> n" by simp
    finally have "2 * 2 ^ (bit_length (n div 2) - 1) \<le> n" .
    moreover have "(2::nat) ^ (bit_length n - 1) = 2 * 2 ^ (bit_length (n div 2) - 1)"
      unfolding e by simp
    ultimately have lo: "2 ^ (bit_length n - 1) \<le> n" by simp
    have "n < 2 * (n div 2) + 2" by presburger
    also have "\<dots> \<le> 2 * 2 ^ bit_length (n div 2)" using ih(2) by simp
    finally have hi: "n < 2 ^ bit_length n" by (simp add: bl)
    from lo hi show ?thesis by simp
  qed
qed

lemma round_half_even_near:
  assumes "0 < b"
  shows "2 * (round_half_even a b * b) \<le> 2 * a + b \<and> 2 * a \<le> 2 * (round_half_even a b * b) + b"
proof -
  have a: "a = a div b * b + a mod b" by simp
  have r: "a mod b < b" using assms by simp
  define q where "q = a div b"
  define m where "m = a mod b"
  have a': "a = q * b + m" and r': "m < b" using a r by (simp_all add: q_def m_def)
  have "round_half_even a b = q \<and> 2 * m \<le> b \<or> round_half_even a b = q + 1 \<and> b \<le> 2 * m"
    by (auto simp: round_half_even_def Let_def q_def m_def)
  then show ?thesis
  proof
    assume "round_half_even a b = q \<and> 2 * m \<le> b"
    then show ?thesis using a' by (simp add: algebra_simps)
  next
    assume "round_half_even a b = q + 1 \<and> b \<le> 2 * m"
    then show ?thesis using a' r' by (simp add: algebra_simps)
  qed
qed

lemma round_half_even_exact: "0 < b \<Longrightarrow> round_half_even (c * b) b = c"
  by (simp add: round_half_even_def)


lemma number_div_error:
  assumes b: "0 < b" and ba: "b \<le> a" and a: "a < 2 ^ 53"
  shows "\<bar>real b * number_div a b - real a\<bar> < 1"
proof -
  define e where "e = bit_length (a div b) - 1"
  define k where "k = 52 - e"
  define m where "m = round_half_even (a * 2 ^ k) b"
  have nd: "number_div a b = real m / 2 ^ k"
    by (simp add: number_div_def Let_def e_def k_def m_def)
  from b ba have "0 < a div b" by (simp add: div_greater_zero_iff)
  then have "2 ^ e \<le> a div b" unfolding e_def using bit_length_bounds by blast
  then have "2 ^ e * b \<le> a div b * b" by (rule mult_le_mono1)
  also have "\<dots> \<le> a" by simp
  finally have eb: "2 ^ e * b \<le> a" .
  from b have "(2::nat) ^ e \<le> 2 ^ e * b" by simp
  with eb a have e53: "(2::nat) ^ e < 2 ^ 53" by (meson le_trans le_less_trans)
  have "e < 53" by (rule power_less_imp_less_exp [of 2]) (simp, fact e53)
  then have ke: "Suc k + e = 53" unfolding k_def by simp
  have b_small: "b < 2 ^ Suc k"
  proof (rule ccontr)
    assume "\<not> b < 2 ^ Suc k"
    then have "2 ^ Suc k \<le> b" by simp
    then have "2 ^ e * 2 ^ Suc k \<le> 2 ^ e * b" by (rule mult_le_mono2)
    from this eb have "(2::nat) ^ e * 2 ^ Suc k \<le> a" by (rule le_trans)
    then have "(2::nat) ^ (e + Suc k) \<le> a" by (simp only: power_add)
    moreover have "e + Suc k = 53" using ke by simp
    ultimately show False using a by simp
  qed
  from round_half_even_near [OF b, of "a * 2 ^ k"]
  have n1: "2 * (m * b) \<le> 2 * (a * 2 ^ k) + b" and n2: "2 * (a * 2 ^ k) \<le> 2 * (m * b) + b"
    unfolding m_def by simp_all
  from n1 have r1: "2 * (real m * real b) \<le> 2 * (real a * 2 ^ k) + real b"
    by (metis (mono_tags, lifting) of_nat_le_iff of_nat_add of_nat_mult of_nat_numeral of_nat_power)
  from n2 have r2: "2 * (real a * 2 ^ k) \<le> 2 * (real m * real b) + real b"
    by (metis (mono_tags, lifting) of_nat_le_iff of_nat_add of_nat_mult of_nat_numeral of_nat_power)
  from b_small have r3: "real b < 2 * 2 ^ k"
    by (metis of_nat_less_iff of_nat_numeral of_nat_power power_Suc)
  have p: "(0::real) < 2 ^ k" by simp
  have "\<bar>real b * real m - real a * 2 ^ k\<bar> < 2 ^ k"
    using r1 r2 r3 by (simp add: abs_less_iff algebra_simps)
  then have "\<bar>real b * real m - real a * 2 ^ k\<bar> / 2 ^ k < 1"
    using p by simp
  moreover have "\<bar>real b * real m - real a * 2 ^ k\<bar> / 2 ^ k =
      \<bar>real b * (real m / 2 ^ k) - real a\<bar>"
  proof -
    have "\<bar>real b * real m - real a * 2 ^ k\<bar> / 2 ^ k =
        \<bar>(real b * real m - real a * 2 ^ k) / 2 ^ k\<bar>"
      using p by (simp add: abs_divide)
    also have "(real b * real m - real a * 2 ^ k) / 2 ^ k = real b * (real m / 2 ^ k) - real a"
      using p by (simp add: field_simps)
    finally show ?thesis .
  qed
  ultimately show ?thesis by (simp add: nd)
qed


lemma number_div_exact:
  assumes b: "0 < b" and d: "b dvd a * 2 ^ (52 - (bit_length (a div b) - 1))"
  shows "number_div a b = real a / real b"
proof -
  define k where "k = 52 - (bit_length (a div b) - 1)"
  from d obtain c where c: "a * 2 ^ k = c * b" unfolding k_def by (auto simp: dvd_def mult.commute)
  then have "round_half_even (a * 2 ^ k) b = c" using b by (simp add: round_half_even_exact)
  then have nd: "number_div a b = real c / 2 ^ k"
    by (simp add: number_div_def Let_def k_def)
  from c have "real a * 2 ^ k = real c * real b"
    by (metis of_nat_mult of_nat_numeral of_nat_power)
  then show ?thesis using b by (simp add: nd field_simps)
qed

lemma number_toString_digit: "d < 10 \<Longrightarrow> number_toString d = [digit d]"
  by (subst number_toString.simps) simp

lemma toFixed_0: "toFixed 0 x = number_toString (nat \<lfloor>x + 1 / 2\<rfloor>)"
  by (simp add: toFixed_def)

lemma toFixed_1:
  "toFixed 1 x =
     number_toString (nat \<lfloor>x * 10 + 1 / 2\<rfloor> div 10) @ ''.'' @
     number_toString (nat \<lfloor>x * 10 + 1 / 2\<rfloor> mod 10)"
  by (simp add: toFixed_def Let_def number_toString_digit)

lemma nearest_scaled:
  fixes x :: real and n c :: nat
  assumes err: "\<bar>(2 * real c) * x - real n\<bar> < 1"
  shows "nat \<lfloor>x + 1 / 2\<rfloor> * (2 * c) \<le> n + c \<and> n \<le> nat \<lfloor>x + 1 / 2\<rfloor> * (2 * c) + c"
proof (cases "c = 0")
  case True
  with err show ?thesis by simp
next
  case False
  then have cpos: "0 < real c" by simp
  define F where "F = \<lfloor>x + 1 / 2\<rfloor>"
  have lo: "real_of_int F \<le> x + 1 / 2" and hi: "x + 1 / 2 < real_of_int F + 1"
    unfolding F_def by linarith+
  from err have e1: "(2 * real c) * x < real n + 1" and e2: "real n - 1 < (2 * real c) * x"
    by (simp_all add: abs_less_iff)
  have xpos: "0 \<le> x + 1 / 2"
  proof (rule ccontr)
    assume "\<not> 0 \<le> x + 1 / 2"
    then have "x < - (1 / 2)" by simp
    then have "(2 * real c) * x < (2 * real c) * (- (1 / 2))"
      using cpos by (simp only: mult_less_cancel_left_pos)
    then have "(2 * real c) * x < - real c" by simp
    with e2 have "real n - 1 < - real c" by linarith
    moreover from False have "1 \<le> real c" by simp
    ultimately show False by simp
  qed
  then have F0: "0 \<le> F" unfolding F_def by simp
  define N where "N = nat F"
  have NF: "real N = real_of_int F" using F0 by (simp add: N_def)
  have "real N * (2 * real c) \<le> (x + 1 / 2) * (2 * real c)"
    using lo cpos unfolding NF by (intro mult_right_mono) simp_all
  also have "\<dots> = (2 * real c) * x + real c" by (simp add: algebra_simps)
  also have "\<dots> < real n + 1 + real c" using e1 by simp
  finally have "real (N * (2 * c)) < real (n + c + 1)" by simp
  then have a1: "N * (2 * c) \<le> n + c" by linarith
  have "real n - 1 + real c < (2 * real c) * x + real c" using e2 by simp
  also have "\<dots> = (x + 1 / 2) * (2 * real c)" by (simp add: algebra_simps)
  also have "\<dots> < (real N + 1) * (2 * real c)"
    using hi cpos unfolding NF by (intro mult_strict_right_mono) simp_all
  finally have "real (n + c) < real (N * (2 * c) + 2 * c + 1)" by (simp add: algebra_simps)
  then have a2: "n + c \<le> N * (2 * c) + 2 * c" by linarith
  from a1 a2 show ?thesis unfolding N_def F_def by simp
qed

lemma nearest_unique:
  fixes c t n :: nat
  assumes c: "0 < c" and lo: "t * (2 * c) \<le> n + c" and hi: "n \<le> t * (2 * c) + c"
    and nt: "n mod (2 * c) \<noteq> c"
  shows "t = (n + c) div (2 * c)"
proof -
  have "n \<noteq> t * (2 * c) + c"
  proof
    assume "n = t * (2 * c) + c"
    then have "n mod (2 * c) = c mod (2 * c)" by simp
    also have "\<dots> = c" using c by simp
    finally show False using nt by simp
  qed
  with hi have "n + c < 2 * c * Suc t" by (simp add: algebra_simps)
  moreover from lo have "2 * c * t \<le> n + c" by (simp add: algebra_simps)
  ultimately have "(n + c) div (2 * c) = t" by (intro div_nat_eqI)
  then show ?thesis by simp
qed

lemma formatPopulation_M:
  assumes lo: "1000000 \<le> n" and hi: "n < 2 ^ 53"
  shows "\<exists>t. formatPopulation n =
             number_toString (t div 10) @ ''.'' @ number_toString (t mod 10) @ ''M'' \<and>
           t * 100000 \<le> n + 50000 \<and> n \<le> t * 100000 + 50000"
proof -
  define x where "x = number_div n 1000000"
  define t where "t = nat \<lfloor>x * 10 + 1 / 2\<rfloor>"
  from lo have fp: "formatPopulation n = toFixed 1 x @ ''M''"
    by (simp add: formatPopulation_def x_def)
  have "\<bar>real 1000000 * x - real n\<bar> < 1"
    unfolding x_def using lo hi by (intro number_div_error) simp_all
  then have "\<bar>(2 * real 50000) * (x * 10) - real n\<bar> < 1" by simp
  from nearest_scaled [OF this]
  have "t * 100000 \<le> n + 50000 \<and> n \<le> t * 100000 + 50000"
    unfolding t_def by simp
  moreover have "formatPopulation n =
      number_toString (t div 10) @ ''.'' @ number_toString (t mod 10) @ ''M''"
    unfolding fp toFixed_1 t_def by simp
  ultimately show ?thesis by blast
qed

lemma formatPopulation_K:
  assumes lo: "1000 \<le> n" and hi: "n < 1000000"
  shows "formatPopulation n = number_toString ((n + 500) div 1000) @ ''K''"
proof -
  define x where "x = number_div n 1000"
  define t where "t = nat \<lfloor>x + 1 / 2\<rfloor>"
  from lo hi have fp: "formatPopulation n = number_toString t @ ''K''"
    by (simp add: formatPopulation_def x_def t_def toFixed_0)
  from hi have n53: "n < 2 ^ 53" by simp
  have "\<bar>real 1000 * x - real n\<bar> < 1"
    unfolding x_def using lo n53 by (intro number_div_error) simp_all
  then have "\<bar>(2 * real 500) * x - real n\<bar> < 1" by simp
  from nearest_scaled [OF this]
  have near: "t * 1000 \<le> n + 500" "n \<le> t * 1000 + 500"
    unfolding t_def by simp_all
  have "t = (n + 500) div 1000"
  proof (cases "n mod 1000 = 500")
    case False
    from nearest_unique [of 500 t n] near False show ?thesis by simp
  next
    case True
    define k where "k = 52 - (bit_length (n div 1000) - 1)"
    from lo have "0 < n div 1000" by (simp add: div_greater_zero_iff)
    then have "2 ^ (bit_length (n div 1000) - 1) \<le> n div 1000"
      using bit_length_bounds by blast
    also from hi have "n div 1000 < 2 ^ 10" by simp
    finally have "bit_length (n div 1000) - 1 < 10"
      by (rule power_less_imp_less_exp [of 2, rotated]) simp
    then have "k = Suc (k - 1)" unfolding k_def by simp
    then have "(2::nat) dvd 2 ^ k" by (metis dvd_triv_left power_Suc)
    moreover have "500 dvd n"
    proof -
      define q where "q = n div 1000"
      from True div_mult_mod_eq [of n 1000] have "n = q * 1000 + 500"
        unfolding q_def by simp
      then have "n = 500 * (2 * q + 1)" by simp
      then show ?thesis by (metis dvd_triv_left)
    qed
    ultimately have "500 * 2 dvd n * 2 ^ k" by (rule mult_dvd_mono [rotated])
    then have "1000 dvd n * 2 ^ (52 - (bit_length (n div 1000) - 1))"
      unfolding k_def by simp
    then have "x = real n / real 1000"
      unfolding x_def by (intro number_div_exact) simp_all
    then have "x + 1 / 2 = real (n + 500) / real 1000" by simp
    then have "\<lfloor>x + 1 / 2\<rfloor> = int ((n + 500) div 1000)"
      by (simp only: floor_divide_of_nat_eq)
    then show ?thesis unfolding t_def by simp
  qed
  with fp show ?thesis by simp
qed

lemma formatPopulation_plain: "n < 1000 \<Longrightarrow> formatPopulation n = number_toString n"
  by (simp add: formatPopulation_def)

lemma formatPopulation_agrees:
  assumes "n < 2 ^ 53" and "n < 1000000 \<or> n mod 100000 \<noteq> 50000"
  shows "formatPopulation n = spec_formatPopulation n"
proof (cases "1000000 \<le> n")
  case False
  then show ?thesis
    by (cases "1000 \<le> n")
      (simp_all add: formatPopulation_K formatPopulation_plain spec_formatPopulation_def)
next
  case True
  with assms(2) have nt: "n mod 100000 \<noteq> 50000" by simp
  from formatPopulation_M [OF True assms(1)] obtain t where
    fp: "formatPopulation n =
      number_toString (t div 10) @ ''.'' @ number_toString (t mod 10) @ ''M''"
    and near: "t * 100000 \<le> n + 50000" "n \<le> t * 100000 + 50000" by blast
  from nearest_unique [of 50000 t n] near nt have "t = (n + 50000) div 100000" by simp
  with True fp show ?thesis by (simp add: spec_formatPopulation_def Let_def)
qed

lemmas formatPopulation_eval = formatPopulation_def toFixed_def number_div_def
  round_half_even_def Let_def bit_length.simps number_toString.simps digit_def

lemma formatPopulation_examples:
  "formatPopulation 999 = ''999''" "formatPopulation 1000 = ''1K''"
  "formatPopulation 1500000 = ''1.5M''" "formatPopulation 1000000 = ''1.0M''"
  "formatPopulation 0 = ''0''" "formatPopulation 1150000 = ''1.1M''"
  "formatPopulation 1250000 = ''1.3M''" "spec_formatPopulation 1150000 = ''1.2M''"
  "formatPopulation 999999 = ''1000K''"
  by (simp_all add: formatPopulation_eval spec_formatPopulation_def)


text \<open>
  C7, as the specification states it, fails when the quotient is exactly halfway between
  two tenths: 1150000 / 1000000 is 1.15, which rounds to 1.2, but the binary64 quotient
  lies just below 1.15 and \<open>toFixed(1)\<close> prints 1.1.
\<close>

theorem formatPopulation_rounding_counterexample:
  "formatPopulation 1150000 = ''1.1M'' \<and>
   spec_formatPopulation 1150000 = ''1.2M'' \<and>
   formatPopulation 1150000 \<noteq> spec_formatPopulation 1150000"
  by (simp add: formatPopulation_examples)

text \<open>
  C7, amended. For every population below \<open>2 ^ 53\<close>: below 1000 the result is the
  plain number; from 1000 and below 1000000 it is the number of thousands rounded to
  nearest, a half upward, followed by K; from 1000000 on it is a number of tenths of a
  million nearest to the population, printed with one decimal and followed by M. The
  result is the one of the specification's rule except possibly when the population is
  exactly halfway between two tenths of a million. The five examples of the
  specification hold.
\<close>

theorem formatPopulation_tiers:
  assumes "n < 2 ^ 53"
  shows "(n < 1000 \<longrightarrow> formatPopulation n = number_toString n) \<and>
         (1000 \<le> n \<and> n < 1000000 \<longrightarrow>
            formatPopulation n = number_toString ((n + 500) div 1000) @ ''K'') \<and>
         (1000000 \<le> n \<longrightarrow>
            (\<exists>t. formatPopulation n =
                   number_toString (t div 10) @ ''.'' @ number_toString (t mod 10) @ ''M'' \<and>
                 t * 100000 \<le> n + 50000 \<and> n \<le> t * 100000 + 50000)) \<and>
         (n < 1000000 \<or> n mod 100000 \<noteq> 50000 \<longrightarrow>
            formatPopulation n = spec_formatPopulation n) \<and>
         formatPopulation 999 = ''999'' \<and> formatPopulation 1000 = ''1K'' \<and>
         formatPopulation 1500000 = ''1.5M'' \<and> formatPopulation 1000000 = ''1.0M'' \<and>
         formatPopulation 0 = ''0''"
proof (intro conjI impI)
  show "formatPopulation n = number_toString n" if "n < 1000"
    using that by (rule formatPopulation_plain)
  show "formatPopulation n = number_toString ((n + 500) div 1000) @ ''K''"
    if "1000 \<le> n \<and> n < 1000000"
    using that by (simp add: formatPopulation_K)
  show "\<exists>t. formatPopulation n =
            number_toString (t div 10) @ ''.'' @ number_toString (t mod 10) @ ''M'' \<and>
          t * 100000 \<le> n + 50000 \<and> n \<le> t * 100000 + 50000"
    if "1000000 \<le> n"
    using that assms by (rule formatPopulation_M)
  show "formatPopulation n = spec_formatPopulation n"
    if "n < 1000000 \<or> n mod 100000 \<noteq> 50000"
    using assms that by (rule formatPopulation_agrees)
qed (simp_all add: formatPopulation_examples)

theorem formatPopulation_tiers_witness:
  "(1234567::nat) < 2 ^ 53 \<and> (1234567::nat) mod 100000 \<noteq> 50000 \<and>
   spec_formatPopulation 1234567 = ''1.2M'' \<and>
   formatPopulation 1234567 = ''1.2M''"
  using formatPopulation_tiers [of 1234567]
  by (simp add: spec_formatPopulation_def number_toString.simps digit_def)

text \<open>
  C10. A population from 999500 up to 999999 is still below one million, so it is
  printed in thousands, and its thousands round up to 1000: the result is 1000K, not
  1.0M.
\<close>

theorem formatPopulation_below_million:
  assumes "999500 \<le> n" and "n < 1000000"
  shows "formatPopulation n = ''1000K'' \<and> formatPopulation n \<noteq> ''1.0M''"
proof -
  from assms have "1000 * 1000 \<le> n + 500" and "n + 500 < 1000 * Suc 1000" by simp_all
  then have "(n + 500) div 1000 = 1000" by (rule div_nat_eqI)
  moreover from assms have "formatPopulation n = number_toString ((n + 500) div 1000) @ ''K''"
    by (intro formatPopulation_K) simp_all
  ultimately have "formatPopulation n = ''1000K''"
    by (simp add: number_toString.simps digit_def)
  then show ?thesis by simp
qed

theorem formatPopulation_below_million_witness:
  "(999500::nat) \<le> 999999 \<and> (999999::nat) < 1000000 \<and>
   formatPopulation 999999 = ''1000K'' \<and> formatPopulation 999999 \<noteq> ''1.0M''"
  using formatPopulation_below_million [of 999999] by simp

subsection \<open>Failure\<close>

lemma name_common_to_json: "name_common (to_json c) = Inr (Some (JStr (common (name c))))"
  by (simp add: name_common_def to_json_def)

lemma compare_name_to_json:
  "compare_name lc (to_json a) (to_json b) = Inr (by_common_name lc a b)"
  by (simp add: compare_name_def name_common_to_json by_common_name_def)

lemma insert_checked_to_json:
  "insert_checked (compare_name lc) (to_json x) (map to_json ys) =
     Inr (map to_json (insert_sorted (by_common_name lc) x ys))"
  by (induction ys) (simp_all add: compare_name_to_json)

lemma sort_checked_to_json:
  "sort_checked (compare_name lc) (map to_json xs) =
     Inr (map to_json (array_sort (by_common_name lc) xs))"
  unfolding array_sort_def by (induction xs) (simp_all add: insert_checked_to_json)

lemma fetch_and_sort_not_array: "\<not> is_array j \<Longrightarrow> fetch_and_sort lc (Parsed j) = Inl TypeError"
  by (cases j) (simp_all add: fetch_and_sort_def)

lemma load_untyped_result:
  "load_untyped lc r s =
     (Inr (),
      case fetch_and_sort lc r of
        Inl e \<Rightarrow> s\<lparr>console := console s @ [e], loading := False, refreshing := False\<rparr>
      | Inr arr \<Rightarrow> s\<lparr>countries := arr, loading := False, refreshing := False\<rparr>)"
  by (simp add: load_untyped_def try_block_untyped_def catch_block_def finally_block_def
      split: sum.splits)

text \<open>
  The typed \<open>load\<close> is the untyped one on the responses that the typed view has: what
  the caller sees is the same, and the state holds the same records.
\<close>

lemma load_untyped_refines:
  assumes "seen_as r outcome"
  shows "load_untyped lc r (objects s) =
           (fst (load lc outcome s), objects (snd (load lc outcome s)))"
proof (cases r)
  case NoResponse
  with assms show ?thesis
    by (simp add: load_untyped_result fetch_and_sort_def load_def try_block_def
        catch_block_def finally_block_def objects_def)
next
  case NotJSON
  with assms show ?thesis
    by (simp add: load_untyped_result fetch_and_sort_def load_def try_block_def
        catch_block_def finally_block_def objects_def)
next
  case (Parsed j)
  show ?thesis
  proof (cases outcome)
    case Rejected
    with Parsed assms show ?thesis by simp
  next
    case (Resolved b)
    show ?thesis
    proof (cases b)
      case Unparseable
      with Parsed Resolved assms show ?thesis by simp
    next
      case NotAnArray
      with Parsed Resolved assms have "fetch_and_sort lc r = Inl TypeError"
        by (simp add: fetch_and_sort_not_array)
      with Resolved NotAnArray show ?thesis
        by (simp add: load_untyped_result load_def try_block_def catch_block_def
            finally_block_def objects_def)
    next
      case (Records data)
      with Parsed Resolved assms have "fetch_and_sort lc r =
          Inr (map to_json (array_sort (by_common_name lc) data))"
        by (simp add: fetch_and_sort_def sort_checked_to_json)
      with Resolved Records show ?thesis
        by (simp add: load_untyped_result load_def try_block_def finally_block_def
            objects_def)
    qed
  qed
qed

text \<open>
  C4, as the specification states it, fails: a response that cannot be parsed into the
  expected shape is a failed fetch, and the body \<open>[{}]\<close> is such a response, yet it
  parses, the sort of one element calls no comparator, and the first load replaces the
  empty collection by it.
\<close>

theorem load_malformed_counterexample:
  "fetch_error (Parsed (JArr [JObj []])) \<and>
   countries (initial_state :: json app_state) = [] \<and>
   countries (snd (load_untyped codeunit_compare (Parsed (JArr [JObj []])) initial_state)) =
     [JObj []]"
  by (simp add: load_untyped_result fetch_and_sort_def initial_state_def is_raw_Country_def)

text \<open>
  C4, amended. No error escapes \<open>load\<close>, whatever the response. Whenever the lines 32
  to 38 throw, the collection is left as it was, the empty one on the first load; they
  throw when the fetch rejects, when the body does not parse, and when it parses to
  something that is not an array. When they do not throw, the sorted array becomes the
  collection, whatever its elements are.
\<close>

theorem load_failure_contained:
  "fst (load_untyped lc r s) = Inr () \<and>
   (isl (fetch_and_sort lc r) \<longrightarrow>
      countries (snd (load_untyped lc r s)) = countries s \<and>
      countries (snd (load_untyped lc r initial_state)) = []) \<and>
   isl (fetch_and_sort lc NoResponse) \<and>
   isl (fetch_and_sort lc NotJSON) \<and>
   (\<not> is_array j \<longrightarrow> isl (fetch_and_sort lc (Parsed j))) \<and>
   (fetch_and_sort lc r = Inr arr \<longrightarrow> countries (snd (load_untyped lc r s)) = arr)"
proof (intro conjI impI)
  show "fst (load_untyped lc r s) = Inr ()"
    by (simp add: load_untyped_result)
  show "countries (snd (load_untyped lc r s)) = countries s" if "isl (fetch_and_sort lc r)"
    using that by (cases "fetch_and_sort lc r") (simp_all add: load_untyped_result)
  show "countries (snd (load_untyped lc r initial_state)) = []" if "isl (fetch_and_sort lc r)"
    using that
    by (cases "fetch_and_sort lc r") (simp_all add: load_untyped_result initial_state_def)
  show "isl (fetch_and_sort lc NoResponse)" and "isl (fetch_and_sort lc NotJSON)"
    by (simp_all add: fetch_and_sort_def)
  show "isl (fetch_and_sort lc (Parsed j))" if "\<not> is_array j"
    using that by (simp add: fetch_and_sort_not_array)
  show "countries (snd (load_untyped lc r s)) = arr" if "fetch_and_sort lc r = Inr arr"
    using that by (simp add: load_untyped_result)
qed

theorem load_failure_contained_witness:
  "\<not> is_array (JObj [(''message'', JStr ''Not Found'')]) \<and>
   isl (fetch_and_sort codeunit_compare (Parsed (JObj [(''message'', JStr ''Not Found'')]))) \<and>
   fst (load_untyped codeunit_compare (Parsed (JObj [(''message'', JStr ''Not Found'')]))
          initial_state) = Inr () \<and>
   countries (snd (load_untyped codeunit_compare
          (Parsed (JObj [(''message'', JStr ''Not Found'')])) initial_state)) = [] \<and>
   console (snd (load_untyped codeunit_compare
          (Parsed (JObj [(''message'', JStr ''Not Found'')])) initial_state)) = [TypeError] \<and>
   fetch_and_sort codeunit_compare (Parsed (JArr [JObj [], JObj []])) = Inl TypeError"
  using load_failure_contained [of codeunit_compare
      "Parsed (JObj [(''message'', JStr ''Not Found'')])" initial_state
      "JObj [(''message'', JStr ''Not Found'')]"]
  by (simp add: load_untyped_result fetch_and_sort_def initial_state_def compare_name_def
      name_common_def)

end
